theory Spec2Isabelle
  imports Complex_Main
begin

section \<open>The Hermes library as the example drivers see it\<close>

text \<open>
  The drivers under \<^verbatim>\<open>src/\<close> are \<^verbatim>\<open>main\<close> functions that call the Hermes
  library. The library is not part of the repository, so every call into it is a field
  of the record \<open>hermes\<close>: the drivers are modelled for every library, and a concrete
  library is plugged in wherever a driver is run on an input.

  \<^item> \<open>'sp\<close> is a space together with the mesh it owns (\<^verbatim>\<open>SpaceSharedPtr<double>\<close>; the
    drivers are modelled in their multimesh configuration, one mesh per space);
  \<^item> \<open>'sl\<close> is a mesh function (\<^verbatim>\<open>MeshFunctionSharedPtr<double>\<close>);
  \<^item> \<open>'ec\<close> is the state of an error calculator after \<^verbatim>\<open>calculate_errors\<close>: the
    element errors that \<^verbatim>\<open>adapt\<close> reads and the totals the accessors return.

  A C++ \<^verbatim>\<open>double\<close> is a \<open>real\<close> (the drivers multiply an error by 100 and compare
  it with a tolerance), an \<^verbatim>\<open>int\<close> is an \<open>int\<close> (step counters and DOF counts
  stay far below \<open>2^31\<close>). A library call returns; the calls that some driver guards by
  \<^verbatim>\<open>try\<close> may throw, which is the result \<open>None\<close>. The single-solution overload of
  \<^verbatim>\<open>calculate_errors\<close> is the vector overload on one-element vectors. Views, timers,
  convergence graphs and log lines have no part in the control flow and are left out,
  but for the numbers a step reports.
\<close>

datatype failure = NewtonFailed | ProjectionFailed | RungeKuttaFailed | WrongDerefinementMethod

datatype norm_type = HERMES_H1_NORM | HERMES_L2_NORM

text \<open>
  An error calculator as a driver builds it, before any error is calculated:
  \<^verbatim>\<open>DefaultErrorCalculator<double, norm>(RelativeErrorToGlobalNorm, component_count)\<close>, or
  (4-group-adapt) \<^verbatim>\<open>ErrorCalculator<double>(RelativeErrorToGlobalNorm)\<close> with the error
  forms \<^verbatim>\<open>ErrorForm(i, j, norm)\<close> added to it. Every driver passes
  \<^verbatim>\<open>RelativeErrorToGlobalNorm\<close>. What a calculator makes of its norm, its component count
  and its forms is the library's.
\<close>

datatype error_calculator =
    DefaultErrorCalculator norm_type int
  | ErrorCalculator "(nat \<times> nat \<times> norm_type) list"

record ('sp, 'sl, 'ec) hermes =
  create_ref_space :: "'sp \<Rightarrow> 'sp"
  get_num_dofs :: "'sp \<Rightarrow> int"
  copy_basemesh :: "'sp \<Rightarrow> 'sp"
  unrefine_all_mesh_elements :: "'sp \<Rightarrow> 'sp"
  set_uniform_order :: "int \<Rightarrow> 'sp \<Rightarrow> 'sp"
  adjust_element_order :: "int \<Rightarrow> int \<Rightarrow> int \<Rightarrow> int \<Rightarrow> 'sp \<Rightarrow> 'sp"
  assign_dofs :: "'sp \<Rightarrow> 'sp"
  newton_solve :: "'sp \<Rightarrow> 'sl option"
  newton_solve_system :: "'sp list \<Rightarrow> 'sl list \<Rightarrow> 'sl list \<Rightarrow> 'sl list option"
  rk_time_step_newton :: "'sp \<Rightarrow> real \<Rightarrow> real \<Rightarrow> 'sl \<Rightarrow> ('sl \<times> 'sl) option"
  power_iteration :: "'sp list \<Rightarrow> 'sl list \<Rightarrow> real \<Rightarrow> 'sl list \<times> real"
  project_global :: "'sp \<Rightarrow> 'sl \<Rightarrow> 'sl option"
  project_global_system :: "'sp list \<Rightarrow> 'sl list \<Rightarrow> 'sl list option"
  calculate_errors :: "error_calculator \<Rightarrow> 'sl list \<Rightarrow> 'sl list \<Rightarrow> bool \<Rightarrow> 'ec"
  get_total_error_squared :: "'ec \<Rightarrow> real"
  get_error_squared :: "'ec \<Rightarrow> nat \<Rightarrow> real"
  calculate_norm :: "'sl \<Rightarrow> real"
  adapt :: "'sp \<Rightarrow> 'ec \<Rightarrow> bool \<times> 'sp"
  adapt_system :: "'sp list \<Rightarrow> 'ec \<Rightarrow> bool \<times> 'sp list"
  solve_newton :: "'sp \<Rightarrow> 'sl \<Rightarrow> 'sl \<Rightarrow> 'sl option"
  calc_err_est :: "'sl \<Rightarrow> 'sl \<Rightarrow> real \<times> 'ec"

text \<open>
  \<^item> \<open>create_ref_space\<close>: \<^verbatim>\<open>Mesh::ReferenceMeshCreator\<close> followed by
    \<^verbatim>\<open>Space<double>::ReferenceSpaceCreator\<close> (in 4-group-adapt: copy of the mesh,
    \<^verbatim>\<open>refine_all_elements\<close>, \<^verbatim>\<open>ReferenceSpaceCreator\<close>);
  \<^item> \<open>copy_basemesh\<close>: \<^verbatim>\<open>mesh->copy(basemesh)\<close>;
  \<^item> \<open>newton_solve\<close>: \<^verbatim>\<open>NewtonSolver(DiscreteProblem(wf, ref_space)).solve()\<close> followed by
    \<^verbatim>\<open>vector_to_solution\<close>; \<open>newton_solve_system spaces prev guess\<close> is the same on
    several spaces, for a weak form that reads the solutions \<open>prev\<close> of the previous time
    level, started from \<open>guess\<close>;
  \<^item> \<open>rk_time_step_newton ref_space t tau sln_prev_time\<close> returns the new reference
    solution and the temporal error function;
  \<^item> \<open>power_iteration spaces iterates k_eff\<close> returns the new iterates and eigenvalue;
  \<^item> \<open>project_global target source\<close> is the projection of \<open>source\<close> onto \<open>target\<close>;
  \<^item> \<open>calculate_errors calculator coarse fine for_adapt\<close> is \<^verbatim>\<open>calculate_errors\<close> called on
    the calculator a driver has built, with the solutions it passes;
  \<^item> \<open>adapt space ec\<close> is \<^verbatim>\<open>Adapt::adapt(&selector)\<close> for an \<^verbatim>\<open>Adapt\<close> bound to
    the space and to the error calculator in state \<open>ec\<close>; it returns the flag and the
    refined space;
  \<^item> \<open>solve_newton ref_space prev coeff_vec\<close> and \<open>calc_err_est sln ref_sln\<close> are the
    calls of the older interface that seepage-adapt uses: the Newton solve started from
    \<open>coeff_vec\<close> (\<open>None\<close> when it returns \<^verbatim>\<open>false\<close>), and the error estimate
    together with the element errors it leaves in the \<^verbatim>\<open>Adapt\<close> object.
\<close>

section \<open>Tunable parameters\<close>

text \<open>
  The global constants at the head of each \<^verbatim>\<open>main.cpp\<close>. Each driver reads the ones it
  declares. \<open>bt_is_embedded\<close> is \<^verbatim>\<open>bt.is_embedded()\<close> of the chosen Butcher table.
\<close>

record tunables =
  ERR_STOP :: real
  NDOF_STOP :: int
  MAX_ADAPT_NUM :: int
  P_INIT :: int
  UNREF_FREQ :: int
  UNREF_METHOD :: int
  SPACE_ERR_TOL :: real
  ADAPTIVE_TIME_STEP_ON :: bool
  TIME_ERR_TOL_UPPER :: real
  TIME_ERR_TOL_LOWER :: real
  TIME_STEP_INC_RATIO :: real
  TIME_STEP_DEC_RATIO :: real
  bt_is_embedded :: bool

section \<open>Reported relative errors\<close>

text \<open>
  \<^verbatim>\<open>errorCalculator.calculate_errors(sln, exact_sln, false);
  double err_exact_rel = errorCalculator.get_total_error_squared() * 100;
  errorCalculator.calculate_errors(sln, ref_sln);
  double err_est_rel = errorCalculator.get_total_error_squared() * 100;\<close>
  (1d/layer-boundary/main.cpp 159-162, lshape/main.cpp 129-134, and the same lines in
  1d/system, poisson-timedep-adapt and wall-on-fire-adapt), for the calculator
  \<^verbatim>\<open>errorCalculator\<close> of the driver.
\<close>

definition err_exact_rel ::
  "('sp, 'sl, 'ec) hermes \<Rightarrow> error_calculator \<Rightarrow> 'sl list \<Rightarrow> 'sl list \<Rightarrow> real" where
  "err_exact_rel H errorCalculator slns exact_slns =
     get_total_error_squared H (calculate_errors H errorCalculator slns exact_slns False) * 100"

definition err_est_rel ::
  "('sp, 'sl, 'ec) hermes \<Rightarrow> error_calculator \<Rightarrow> 'sl list \<Rightarrow> 'sl list \<Rightarrow> real" where
  "err_est_rel H errorCalculator slns ref_slns =
     get_total_error_squared H (calculate_errors H errorCalculator slns ref_slns True) * 100"


text \<open>The line a driver logs at each adaptivity step.\<close>

record report =
  ndof_coarse :: int
  ndof_fine :: int
  reported_err_est :: real
  reported_err_exact :: real

section \<open>1d/layer-boundary/main.cpp\<close>

text \<open>Line 29: \<^verbatim>\<open>DefaultErrorCalculator<double, HERMES_H1_NORM> errorCalculator(RelativeErrorToGlobalNorm, 1)\<close>.\<close>

definition lb1d_errorCalculator :: error_calculator where
  "lb1d_errorCalculator = DefaultErrorCalculator HERMES_H1_NORM 1"

text \<open>
  Lines 193-198:
  \<^verbatim>\<open>if (err_exact_rel < ERR_STOP || space->get_num_dofs() >= NDOF_STOP) done = true;
  else done = adaptivity.adapt(&selector);\<close>
  The result is the flag \<^verbatim>\<open>done\<close> and the space after the check; \<open>ec\<close> is the state
  of \<^verbatim>\<open>errorCalculator\<close>, last set by \<^verbatim>\<open>calculate_errors(sln, ref_sln)\<close>.
\<close>

definition lb1d_stop_check ::
  "('sp, 'sl, 'ec) hermes \<Rightarrow> tunables \<Rightarrow> 'sp \<Rightarrow> 'ec \<Rightarrow> real \<Rightarrow> bool \<times> 'sp" where
  "lb1d_stop_check H T space ec err_exact =
     (if err_exact < ERR_STOP T \<or> get_num_dofs H space \<ge> NDOF_STOP T then (True, space)
      else adapt H space ec)"

text \<open>
  One pass through the body of the \<^verbatim>\<open>do ... while (done == false)\<close> loop, lines 110-206.
  The \<^verbatim>\<open>catch\<close> of lines 142-146 rethrows, which ends \<^verbatim>\<open>main\<close>; an exception of
  \<^verbatim>\<open>project_global\<close> is not caught, which ends \<^verbatim>\<open>main\<close> as well.
\<close>

definition lb1d_step ::
  "('sp, 'sl, 'ec) hermes \<Rightarrow> 'sl \<Rightarrow> tunables \<Rightarrow> 'sp \<Rightarrow> int
     \<Rightarrow> failure + (bool \<times> 'sp \<times> int \<times> report)" where
  "lb1d_step H exact_sln T space as =
     (let ref_space = create_ref_space H space in
      case newton_solve H ref_space of
        None \<Rightarrow> Inl NewtonFailed
      | Some ref_sln \<Rightarrow>
          (case project_global H space ref_sln of
             None \<Rightarrow> Inl ProjectionFailed
           | Some sln \<Rightarrow>
               (let err_exact = err_exact_rel H lb1d_errorCalculator [sln] [exact_sln];
                    ec = calculate_errors H lb1d_errorCalculator [sln] [ref_sln] True;
                    err_est = err_est_rel H lb1d_errorCalculator [sln] [ref_sln];
                    rep = \<lparr> ndof_coarse = get_num_dofs H space,
                            ndof_fine = get_num_dofs H ref_space,
                            reported_err_est = err_est, reported_err_exact = err_exact \<rparr>;
                    (done, space') = lb1d_stop_check H T space ec err_exact
                in Inr (done, space', (if done = False then as + 1 else as), rep))))"

partial_function (option) lb1d_loop ::
  "('sp, 'sl, 'ec) hermes \<Rightarrow> 'sl \<Rightarrow> tunables \<Rightarrow> 'sp \<Rightarrow> int \<Rightarrow> (failure + 'sp \<times> int) option" where
  "lb1d_loop H exact_sln T space as =
     (case lb1d_step H exact_sln T space as of
        Inl e \<Rightarrow> Some (Inl e)
      | Inr (done, space', as', rep) \<Rightarrow>
          if done = False then lb1d_loop H exact_sln T space' as' else Some (Inr (space', as')))"

text \<open>The tunables of the file (lines 48 and 51); the others are not read.\<close>

definition lb1d_tunables :: tunables where
  "lb1d_tunables =
     \<lparr> ERR_STOP = 1 / 1000, NDOF_STOP = 1000, MAX_ADAPT_NUM = 0, P_INIT = 1, UNREF_FREQ = 0,
       UNREF_METHOD = 0, SPACE_ERR_TOL = 0, ADAPTIVE_TIME_STEP_ON = False,
       TIME_ERR_TOL_UPPER = 0, TIME_ERR_TOL_LOWER = 0, TIME_STEP_INC_RATIO = 0,
       TIME_STEP_DEC_RATIO = 0, bt_is_embedded = False \<rparr>"

section \<open>2d-benchmarks-general/lshape/main.cpp\<close>

text \<open>Line 28: \<^verbatim>\<open>DefaultErrorCalculator<double, HERMES_H1_NORM> errorCalculator(RelativeErrorToGlobalNorm, 1)\<close>.\<close>

definition lshape_errorCalculator :: error_calculator where
  "lshape_errorCalculator = DefaultErrorCalculator HERMES_H1_NORM 1"

text \<open>
  Lines 163-168:
  \<^verbatim>\<open>if (err_exact_rel < ERR_STOP) done = true; else done = adaptivity.adapt(&selector);\<close>
\<close>

definition lshape_stop_check ::
  "('sp, 'sl, 'ec) hermes \<Rightarrow> tunables \<Rightarrow> 'sp \<Rightarrow> 'ec \<Rightarrow> real \<Rightarrow> bool \<times> 'sp" where
  "lshape_stop_check H T space ec err_exact =
     (if err_exact < ERR_STOP T then (True, space) else adapt H space ec)"

definition lshape_step ::
  "('sp, 'sl, 'ec) hermes \<Rightarrow> 'sl \<Rightarrow> tunables \<Rightarrow> 'sp \<Rightarrow> int
     \<Rightarrow> failure + (bool \<times> 'sp \<times> int \<times> report)" where
  "lshape_step H exact_sln T space as =
     (let ref_space = create_ref_space H space in
      case newton_solve H ref_space of
        None \<Rightarrow> Inl NewtonFailed
      | Some ref_sln \<Rightarrow>
          (case project_global H space ref_sln of
             None \<Rightarrow> Inl ProjectionFailed
           | Some sln \<Rightarrow>
               (let err_exact = err_exact_rel H lshape_errorCalculator [sln] [exact_sln];
                    ec = calculate_errors H lshape_errorCalculator [sln] [ref_sln] True;
                    err_est = err_est_rel H lshape_errorCalculator [sln] [ref_sln];
                    rep = \<lparr> ndof_coarse = get_num_dofs H space,
                            ndof_fine = get_num_dofs H ref_space,
                            reported_err_est = err_est, reported_err_exact = err_exact \<rparr>;
                    (done, space') = lshape_stop_check H T space ec err_exact
                in Inr (done, space', (if done = False then as + 1 else as), rep))))"

partial_function (option) lshape_loop ::
  "('sp, 'sl, 'ec) hermes \<Rightarrow> 'sl \<Rightarrow> tunables \<Rightarrow> 'sp \<Rightarrow> int \<Rightarrow> (failure + 'sp \<times> int) option" where
  "lshape_loop H exact_sln T space as =
     (case lshape_step H exact_sln T space as of
        Inl e \<Rightarrow> Some (Inl e)
      | Inr (done, space', as', rep) \<Rightarrow>
          if done = False then lshape_loop H exact_sln T space' as' else Some (Inr (space', as')))"

text \<open>The tunable of the file (line 36); the others are not read.\<close>

definition lshape_tunables :: tunables where
  "lshape_tunables =
     \<lparr> ERR_STOP = 1 / 10000, NDOF_STOP = 0, MAX_ADAPT_NUM = 0, P_INIT = 2, UNREF_FREQ = 0,
       UNREF_METHOD = 0, SPACE_ERR_TOL = 0, ADAPTIVE_TIME_STEP_ON = False,
       TIME_ERR_TOL_UPPER = 0, TIME_ERR_TOL_LOWER = 0, TIME_STEP_INC_RATIO = 0,
       TIME_STEP_DEC_RATIO = 0, bt_is_embedded = False \<rparr>"

section \<open>1d/system/main.cpp\<close>

text \<open>Line 49: \<^verbatim>\<open>DefaultErrorCalculator<double, HERMES_H1_NORM> errorCalculator(RelativeErrorToGlobalNorm, 1)\<close>.\<close>

definition sys1d_errorCalculator :: error_calculator where
  "sys1d_errorCalculator = DefaultErrorCalculator HERMES_H1_NORM 1"

text \<open>
  Two components \<open>u\<close>, \<open>v\<close> on their own meshes: \<open>spaces\<close> is \<^verbatim>\<open>{ u_space, v_space }\<close>.
  Lines 258-265:
  \<^verbatim>\<open>if (err_est_rel_total < ERR_STOP) done = true;
  else done = adaptivity.adapt({ &selector, &selector });\<close>
\<close>

definition sys1d_stop_check ::
  "('sp, 'sl, 'ec) hermes \<Rightarrow> tunables \<Rightarrow> 'sp list \<Rightarrow> 'ec \<Rightarrow> real \<Rightarrow> bool \<times> 'sp list" where
  "sys1d_stop_check H T spaces ec err_est_rel_total =
     (if err_est_rel_total < ERR_STOP T then (True, spaces) else adapt_system H spaces ec)"

text \<open>The loop body, lines 143-269 (with \<^verbatim>\<open>WITH_EXACT_SOLUTION\<close> defined, line 32).\<close>

definition sys1d_step ::
  "('sp, 'sl, 'ec) hermes \<Rightarrow> 'sl list \<Rightarrow> tunables \<Rightarrow> 'sp list \<Rightarrow> int
     \<Rightarrow> failure + (bool \<times> 'sp list \<times> int \<times> report)" where
  "sys1d_step H exact_slns T spaces as =
     (let ref_spaces = map (create_ref_space H) spaces in
      case newton_solve_system H ref_spaces [] [] of
        None \<Rightarrow> Inl NewtonFailed
      | Some ref_slns \<Rightarrow>
          (case project_global_system H spaces ref_slns of
             None \<Rightarrow> Inl ProjectionFailed
           | Some slns \<Rightarrow>
               (let err_exact_rel_total = err_exact_rel H sys1d_errorCalculator slns exact_slns;
                    ec = calculate_errors H sys1d_errorCalculator slns ref_slns True;
                    err_est_rel_total = err_est_rel H sys1d_errorCalculator slns ref_slns;
                    rep = \<lparr> ndof_coarse = sum_list (map (get_num_dofs H) spaces),
                            ndof_fine = sum_list (map (get_num_dofs H) ref_spaces),
                            reported_err_est = err_est_rel_total,
                            reported_err_exact = err_exact_rel_total \<rparr>;
                    (done, spaces') = sys1d_stop_check H T spaces ec err_est_rel_total
                in Inr (done, spaces', as + 1, rep))))"

partial_function (option) sys1d_loop ::
  "('sp, 'sl, 'ec) hermes \<Rightarrow> 'sl list \<Rightarrow> tunables \<Rightarrow> 'sp list \<Rightarrow> int
     \<Rightarrow> (failure + 'sp list \<times> int) option" where
  "sys1d_loop H exact_slns T spaces as =
     (case sys1d_step H exact_slns T spaces as of
        Inl e \<Rightarrow> Some (Inl e)
      | Inr (done, spaces', as', rep) \<Rightarrow>
          if done = False then sys1d_loop H exact_slns T spaces' as'
          else Some (Inr (spaces', as')))"

text \<open>The tunable of the file (line 57); the others are not read.\<close>

definition sys1d_tunables :: tunables where
  "sys1d_tunables =
     \<lparr> ERR_STOP = 1 / 10, NDOF_STOP = 0, MAX_ADAPT_NUM = 0, P_INIT = 1, UNREF_FREQ = 0,
       UNREF_METHOD = 0, SPACE_ERR_TOL = 0, ADAPTIVE_TIME_STEP_ON = False,
       TIME_ERR_TOL_UPPER = 0, TIME_ERR_TOL_LOWER = 0, TIME_STEP_INC_RATIO = 0,
       TIME_STEP_DEC_RATIO = 0, bt_is_embedded = False \<rparr>"

section \<open>2d-advanced/neutronics/4-group-adapt/main.cpp\<close>

text \<open>
  Lines 305-314: \<^verbatim>\<open>ErrorCalculator<double> H1errorCalculator(RelativeErrorToGlobalNorm)\<close>
  and \<^verbatim>\<open>L2errorCalculator\<close>, each with \<^verbatim>\<open>add_error_form(new ErrorForm(g, g, norm))\<close> for the
  four groups \<open>g\<close>; the norms are those of \<^verbatim>\<open>proj_norms_h1\<close> and \<^verbatim>\<open>proj_norms_l2\<close>
  (lines 223-228).
\<close>

definition ng4_H1errorCalculator :: error_calculator where
  "ng4_H1errorCalculator = ErrorCalculator (map (\<lambda>g. (g, g, HERMES_H1_NORM)) [0, 1, 2, 3])"

definition ng4_L2errorCalculator :: error_calculator where
  "ng4_L2errorCalculator = ErrorCalculator (map (\<lambda>g. (g, g, HERMES_L2_NORM)) [0, 1, 2, 3])"

text \<open>
  Four energy groups, one mesh and one space each (line 140). The macro
  \<^verbatim>\<open>report_num_dofs\<close> (lines 77-80) and lines 345-346, 369-370 add the four DOF counts.
\<close>

definition ng4_ndof :: "('sp, 'sl, 'ec) hermes \<Rightarrow> 'sp list \<Rightarrow> int" where
  "ng4_ndof H spaces =
     get_num_dofs H (spaces ! 0) + get_num_dofs H (spaces ! 1)
       + get_num_dofs H (spaces ! 2) + get_num_dofs H (spaces ! 3)"

text \<open>What lines 322-326 compute and lines 338-341 log.\<close>

record ng4_report =
  h1_group_errors :: "real list"
  l2_group_errors :: "real list"
  h1_err_est :: real
  l2_err_est :: real
  ng4_ndof_coarse :: int

text \<open>
  Lines 361-376. \<open>h1_ec\<close> is the state of \<^verbatim>\<open>H1errorCalculator\<close>, to which
  \<^verbatim>\<open>adapt_h1\<close> is bound.
  \<^verbatim>\<open>if (l2_err_est < ERR_STOP) done = true;
  else {
    done = adapt_h1.adapt(selectors);
    if (spaces[0]->get_num_dofs() + ... + spaces[3]->get_num_dofs() >= NDOF_STOP) done = true;
  }
  as++;
  if (as >= MAX_ADAPT_NUM) done = true;\<close>
\<close>

definition ng4_stop_check ::
  "('sp, 'sl, 'ec) hermes \<Rightarrow> tunables \<Rightarrow> 'sp list \<Rightarrow> 'ec \<Rightarrow> real \<Rightarrow> int
     \<Rightarrow> bool \<times> 'sp list \<times> int" where
  "ng4_stop_check H T spaces h1_ec l2_err as =
     (let (done, spaces') =
            (if l2_err < ERR_STOP T then (True, spaces)
             else (let (d, spaces') = adapt_system H spaces h1_ec
                   in ((if ng4_ndof H spaces' \<ge> NDOF_STOP T then True else d), spaces')));
          as' = as + 1
      in ((if as' \<ge> MAX_ADAPT_NUM T then True else done), spaces', as'))"

text \<open>
  The loop body, lines 236-377. The projection of the fine solutions onto the coarse
  spaces is commented out (line 284), so \<open>coarse_solutions\<close> stay what they were before
  the loop. The state carried from step to step is the spaces, the power iterates, the
  eigenvalue held by the weak form, and \<^verbatim>\<open>as\<close>.
\<close>

definition ng4_step ::
  "('sp, 'sl, 'ec) hermes \<Rightarrow> 'sl list \<Rightarrow> tunables \<Rightarrow> 'sp list \<Rightarrow> 'sl list \<Rightarrow> real \<Rightarrow> int
     \<Rightarrow> bool \<times> 'sp list \<times> 'sl list \<times> real \<times> int \<times> ng4_report" where
  "ng4_step H coarse_solutions T spaces power_iterates k_eff as =
     (let ref_spaces = map (create_ref_space H) spaces;
          (power_iterates', k_eff') = power_iteration H ref_spaces power_iterates k_eff;
          fine_solutions = power_iterates';
          h1_ec = calculate_errors H ng4_H1errorCalculator coarse_solutions fine_solutions True;
          l2_ec = calculate_errors H ng4_L2errorCalculator coarse_solutions fine_solutions True;
          rep = \<lparr> h1_group_errors = map (\<lambda>g. get_error_squared H h1_ec g * 100) [0, 1, 2, 3],
                  l2_group_errors = map (\<lambda>g. get_error_squared H l2_ec g * 100) [0, 1, 2, 3],
                  h1_err_est = get_total_error_squared H h1_ec * 100,
                  l2_err_est = get_total_error_squared H l2_ec * 100,
                  ng4_ndof_coarse = ng4_ndof H spaces \<rparr>;
          (done, spaces', as') = ng4_stop_check H T spaces h1_ec (l2_err_est rep) as
      in (done, spaces', power_iterates', k_eff', as', rep))"


text \<open>The tunables of the file (lines 56, 60, 63); the others are not read.\<close>

definition ng4_tunables :: tunables where
  "ng4_tunables =
     \<lparr> ERR_STOP = 1 / 2, NDOF_STOP = 100000, MAX_ADAPT_NUM = 30, P_INIT = 1, UNREF_FREQ = 0,
       UNREF_METHOD = 0, SPACE_ERR_TOL = 0, ADAPTIVE_TIME_STEP_ON = False,
       TIME_ERR_TOL_UPPER = 0, TIME_ERR_TOL_LOWER = 0, TIME_STEP_INC_RATIO = 0,
       TIME_STEP_DEC_RATIO = 0, bt_is_embedded = False \<rparr>"

section \<open>2d-advanced/nernst-planck/poisson-timedep-adapt/main.cpp\<close>

text \<open>Line 118: \<^verbatim>\<open>DefaultErrorCalculator<double, HERMES_H1_NORM> errorCalculator(RelativeErrorToGlobalNorm, 2)\<close>.\<close>

definition np_errorCalculator :: error_calculator where
  "np_errorCalculator = DefaultErrorCalculator HERMES_H1_NORM 2"

text \<open>
  \<open>spaces\<close> is \<^verbatim>\<open>{ C_space, phi_space }\<close>, \<open>slns\<close> is \<^verbatim>\<open>{ C_sln, phi_sln }\<close>,
  \<open>ref_slns\<close> is \<^verbatim>\<open>{ C_ref_sln, phi_ref_sln }\<close> and \<open>prev_time\<close> is
  \<^verbatim>\<open>{ C_prev_time, phi_prev_time }\<close>, which the weak form reads. \<open>ts\<close> is
  \<^verbatim>\<open>pid.get_timestep_number()\<close>.

  Lines 292-303, the periodic global derefinement:
  \<^verbatim>\<open>if (pid.get_timestep_number() > 1 && pid.get_timestep_number() % UNREF_FREQ == 0) {
    C_mesh->copy(basemesh); if (MULTIMESH) phi_mesh->copy(basemesh);
    C_space->set_uniform_order(P_INIT); phi_space->set_uniform_order(P_INIT);
    C_space->assign_dofs(); phi_space->assign_dofs(); }\<close>
  For \<open>ts > 1\<close> and \<open>UNREF_FREQ \<noteq> 0\<close> the C++ test \<^verbatim>\<open>ts % UNREF_FREQ == 0\<close> is
  \<open>ts mod UNREF_FREQ = 0\<close>.
\<close>

definition np_derefine :: "('sp, 'sl, 'ec) hermes \<Rightarrow> tunables \<Rightarrow> 'sp list \<Rightarrow> 'sp list" where
  "np_derefine H T spaces =
     map (\<lambda>space. assign_dofs H (set_uniform_order H (P_INIT T) (copy_basemesh H space))) spaces"

definition np_begin_time_step ::
  "('sp, 'sl, 'ec) hermes \<Rightarrow> tunables \<Rightarrow> int \<Rightarrow> 'sp list \<Rightarrow> 'sp list" where
  "np_begin_time_step H T ts spaces =
     (if ts > 1 \<and> ts mod UNREF_FREQ T = 0 then np_derefine H T spaces else spaces)"

text \<open>
  Lines 366-374:
  \<^verbatim>\<open>if (err_est_rel_total < ERR_STOP) done = true;
  else { done = adaptivity.adapt({ &selector, &selector }); as++; }\<close>
\<close>

definition np_stop_check ::
  "('sp, 'sl, 'ec) hermes \<Rightarrow> tunables \<Rightarrow> 'sp list \<Rightarrow> 'ec \<Rightarrow> real \<Rightarrow> int
     \<Rightarrow> bool \<times> 'sp list \<times> int" where
  "np_stop_check H T spaces ec err_est_rel_total as =
     (if err_est_rel_total < ERR_STOP T then (True, spaces, as)
      else (let (done, spaces') = adapt_system H spaces ec in (done, spaces', as + 1)))"

text \<open>The body of the adaptivity loop, lines 308-399.\<close>

definition np_adapt_step ::
  "('sp, 'sl, 'ec) hermes \<Rightarrow> tunables \<Rightarrow> int \<Rightarrow> 'sp list \<Rightarrow> 'sl list \<Rightarrow> 'sl list \<Rightarrow> 'sl list \<Rightarrow> int
     \<Rightarrow> failure + (bool \<times> 'sp list \<times> 'sl list \<times> 'sl list \<times> 'sl list \<times> int)" where
  "np_adapt_step H T ts spaces slns ref_slns prev_time as =
     (let ref_spaces = map (create_ref_space H) spaces in
      case newton_solve_system H ref_spaces prev_time
             (if as = 1 \<and> ts = 1 then slns else ref_slns) of
        None \<Rightarrow> Inl NewtonFailed
      | Some ref_slns' \<Rightarrow>
          (case project_global_system H spaces ref_slns' of
             None \<Rightarrow> Inl ProjectionFailed
           | Some slns' \<Rightarrow>
               (let ec = calculate_errors H np_errorCalculator slns' ref_slns' True;
                    err_est_rel_total = err_est_rel H np_errorCalculator slns' ref_slns';
                    (done, spaces', as') = np_stop_check H T spaces ec err_est_rel_total as
                in Inr (done, spaces', slns', ref_slns', prev_time, as'))))"

partial_function (option) np_adapt_loop ::
  "('sp, 'sl, 'ec) hermes \<Rightarrow> tunables \<Rightarrow> int \<Rightarrow> 'sp list \<Rightarrow> 'sl list \<Rightarrow> 'sl list \<Rightarrow> 'sl list \<Rightarrow> int
     \<Rightarrow> (failure + 'sp list \<times> 'sl list \<times> 'sl list \<times> 'sl list \<times> int) option" where
  "np_adapt_loop H T ts spaces slns ref_slns prev_time as =
     (case np_adapt_step H T ts spaces slns ref_slns prev_time as of
        Inl e \<Rightarrow> Some (Inl e)
      | Inr (done, spaces', slns', ref_slns', prev_time', as') \<Rightarrow>
          if done = False then np_adapt_loop H T ts spaces' slns' ref_slns' prev_time' as'
          else Some (Inr (spaces', slns', ref_slns', prev_time', as')))"

text \<open>
  Lines 401-406, after the adaptivity loop:
  \<^verbatim>\<open>C_prev_time->copy(C_ref_sln); phi_prev_time->copy(phi_ref_sln);\<close>. The argument is the
  outcome of the adaptivity loop (\<open>None\<close> when it does not end); the result is the spaces,
  \<open>slns\<close>, \<open>ref_slns\<close> and the new \<open>prev_time\<close>. The time step controller \<^verbatim>\<open>pid\<close>
  (timestep_controller.h) is not modelled.
\<close>

definition np_end_time_step ::
  "(failure + 'sp list \<times> 'sl list \<times> 'sl list \<times> 'sl list \<times> int) option
     \<Rightarrow> (failure + 'sp list \<times> 'sl list \<times> 'sl list \<times> 'sl list) option" where
  "np_end_time_step outcome =
     (case outcome of
        None \<Rightarrow> None
      | Some (Inl e) \<Rightarrow> Some (Inl e)
      | Some (Inr (spaces', slns', ref_slns', prev_time', as')) \<Rightarrow>
          Some (Inr (spaces', slns', ref_slns', ref_slns')))"

text \<open>One pass through the time stepping loop, lines 290-407.\<close>

definition np_time_step ::
  "('sp, 'sl, 'ec) hermes \<Rightarrow> tunables \<Rightarrow> int \<Rightarrow> 'sp list \<Rightarrow> 'sl list \<Rightarrow> 'sl list \<Rightarrow> 'sl list
     \<Rightarrow> (failure + 'sp list \<times> 'sl list \<times> 'sl list \<times> 'sl list) option" where
  "np_time_step H T ts spaces slns ref_slns prev_time =
     np_end_time_step
       (np_adapt_loop H T ts (np_begin_time_step H T ts spaces) slns ref_slns prev_time 1)"

text \<open>The tunables of the file (lines 97, 113, 126); the others are not read.\<close>

definition np_tunables :: tunables where
  "np_tunables =
     \<lparr> ERR_STOP = 1 / 10, NDOF_STOP = 0, MAX_ADAPT_NUM = 0, P_INIT = 2, UNREF_FREQ = 1,
       UNREF_METHOD = 0, SPACE_ERR_TOL = 0, ADAPTIVE_TIME_STEP_ON = False,
       TIME_ERR_TOL_UPPER = 0, TIME_ERR_TOL_LOWER = 0, TIME_STEP_INC_RATIO = 0,
       TIME_STEP_DEC_RATIO = 0, bt_is_embedded = False \<rparr>"

section \<open>2d-advanced/heat-transfer/wall-on-fire-adapt/main.cpp\<close>

text \<open>Line 48: \<^verbatim>\<open>DefaultErrorCalculator<double, HERMES_H1_NORM> errorCalculator(RelativeErrorToGlobalNorm, 1)\<close>.\<close>

definition wof_errorCalculator :: error_calculator where
  "wof_errorCalculator = DefaultErrorCalculator HERMES_H1_NORM 1"

text \<open>
  Lines 194-214, the periodic global derefinement:
  \<^verbatim>\<open>switch (UNREF_METHOD) {
  case 1: mesh->copy(basemesh); space->set_uniform_order(P_INIT); break;
  case 2: space->unrefine_all_mesh_elements(); space->set_uniform_order(P_INIT); break;
  case 3: space->unrefine_all_mesh_elements();
          space->adjust_element_order(-1, -1, P_INIT, P_INIT); break;
  default: throw Hermes::Exceptions::Exception("Wrong global derefinement method."); }
  space->assign_dofs();\<close>
\<close>

definition wof_derefine :: "('sp, 'sl, 'ec) hermes \<Rightarrow> tunables \<Rightarrow> 'sp \<Rightarrow> failure + 'sp" where
  "wof_derefine H T space =
     (if UNREF_METHOD T = 1
        then Inr (assign_dofs H (set_uniform_order H (P_INIT T) (copy_basemesh H space)))
      else if UNREF_METHOD T = 2
        then Inr (assign_dofs H (set_uniform_order H (P_INIT T) (unrefine_all_mesh_elements H space)))
      else if UNREF_METHOD T = 3
        then Inr (assign_dofs H
               (adjust_element_order H (- 1) (- 1) (P_INIT T) (P_INIT T)
                  (unrefine_all_mesh_elements H space)))
      else Inl WrongDerefinementMethod)"

definition wof_begin_time_step ::
  "('sp, 'sl, 'ec) hermes \<Rightarrow> tunables \<Rightarrow> int \<Rightarrow> 'sp \<Rightarrow> failure + 'sp" where
  "wof_begin_time_step H T ts space =
     (if ts > 1 \<and> ts mod UNREF_FREQ T = 0 then wof_derefine H T space else Inr space)"

text \<open>
  Lines 132-136: adaptive time stepping is turned off when the Runge-Kutta method is
  not embedded.
\<close>

definition wof_adaptive_time_step_on :: "tunables \<Rightarrow> bool" where
  "wof_adaptive_time_step_on T =
     (if bt_is_embedded T = False \<and> ADAPTIVE_TIME_STEP_ON T = True then False
      else ADAPTIVE_TIME_STEP_ON T)"

text \<open>
  The body of the spatial adaptivity loop, lines 222-354. Line 235 is
  \<^verbatim>\<open>ogProjection.project_global(ref_space, sln_prev_time, sln_prev_time);\<close>: source and
  target of the projection are the same object. A failure of it or of the Runge-Kutta
  step makes \<^verbatim>\<open>main\<close> return -1. The \<^verbatim>\<open>continue\<close> of line 297 goes to the test
  \<^verbatim>\<open>while (done == false)\<close> with \<^verbatim>\<open>done\<close> still false. The result is \<^verbatim>\<open>done\<close>, the
  space, \<^verbatim>\<open>sln_prev_time\<close>, \<^verbatim>\<open>time_step\<close>, \<^verbatim>\<open>as\<close> and \<^verbatim>\<open>ref_sln\<close>. Where the norm of
  \<^verbatim>\<open>ref_sln\<close> is 0 the quotient of line 284 is not a number in C++ and is 0 here; it is
  read only when adaptive time stepping is on.
\<close>

definition wof_adapt_step ::
  "('sp, 'sl, 'ec) hermes \<Rightarrow> tunables \<Rightarrow> real \<Rightarrow> 'sp \<Rightarrow> 'sl \<Rightarrow> real \<Rightarrow> int
     \<Rightarrow> failure + (bool \<times> 'sp \<times> 'sl \<times> real \<times> int \<times> 'sl)" where
  "wof_adapt_step H T current_time space sln_prev_time time_step as =
     (let ref_space = create_ref_space H space in
      case project_global H ref_space sln_prev_time of
        None \<Rightarrow> Inl ProjectionFailed
      | Some sln_prev_time' \<Rightarrow>
          (case rk_time_step_newton H ref_space current_time time_step sln_prev_time' of
             None \<Rightarrow> Inl RungeKuttaFailed
           | Some (ref_sln, time_error_fn) \<Rightarrow>
               (let rel_err_time =
                      (if bt_is_embedded T
                       then 100 * calculate_norm H time_error_fn / calculate_norm H ref_sln
                       else 0)
                in if wof_adaptive_time_step_on T \<and> rel_err_time > TIME_ERR_TOL_UPPER T
                   then Inr (False, space, sln_prev_time', time_step * TIME_STEP_DEC_RATIO T,
                             as, ref_sln)
                   else
                     (let time_step' =
                            (if wof_adaptive_time_step_on T \<and> rel_err_time < TIME_ERR_TOL_LOWER T
                             then time_step * TIME_STEP_INC_RATIO T else time_step)
                      in case project_global H space ref_sln of
                           None \<Rightarrow> Inl ProjectionFailed
                         | Some sln \<Rightarrow>
                             (let ec = calculate_errors H wof_errorCalculator [sln] [ref_sln] True;
                                  err_rel_space = err_est_rel H wof_errorCalculator [sln] [ref_sln]
                              in if err_rel_space < SPACE_ERR_TOL T
                                 then Inr (True, space, sln_prev_time', time_step', as, ref_sln)
                                 else (let (done, space') = adapt H space ec
                                       in Inr (done, space', sln_prev_time', time_step',
                                               as + 1, ref_sln)))))))"

partial_function (option) wof_adapt_loop ::
  "('sp, 'sl, 'ec) hermes \<Rightarrow> tunables \<Rightarrow> real \<Rightarrow> 'sp \<Rightarrow> 'sl \<Rightarrow> real \<Rightarrow> int
     \<Rightarrow> (failure + 'sp \<times> 'sl \<times> real \<times> int \<times> 'sl) option" where
  "wof_adapt_loop H T current_time space sln_prev_time time_step as =
     (case wof_adapt_step H T current_time space sln_prev_time time_step as of
        Inl e \<Rightarrow> Some (Inl e)
      | Inr (done, space', sln_prev_time', time_step', as', ref_sln) \<Rightarrow>
          if done = False then wof_adapt_loop H T current_time space' sln_prev_time' time_step' as'
          else Some (Inr (space', sln_prev_time', time_step', as', ref_sln)))"

text \<open>
  Lines 356-371, after the adaptivity loop:
  \<^verbatim>\<open>sln_prev_time->copy(ref_sln); current_time += time_step; ts++;\<close>. The result is the
  space, \<^verbatim>\<open>sln_prev_time\<close>, \<^verbatim>\<open>current_time\<close>, \<^verbatim>\<open>time_step\<close> and \<^verbatim>\<open>ts\<close>.
\<close>

definition wof_end_time_step ::
  "real \<Rightarrow> int \<Rightarrow> (failure + 'sp \<times> 'sl \<times> real \<times> int \<times> 'sl) option
     \<Rightarrow> (failure + 'sp \<times> 'sl \<times> real \<times> real \<times> int) option" where
  "wof_end_time_step current_time ts outcome =
     (case outcome of
        None \<Rightarrow> None
      | Some (Inl e) \<Rightarrow> Some (Inl e)
      | Some (Inr (space', sln_prev_time', time_step', as', ref_sln)) \<Rightarrow>
          Some (Inr (space', ref_sln, current_time + time_step', time_step', ts + 1)))"

text \<open>One pass through the time stepping loop, lines 191-372.\<close>

definition wof_time_step ::
  "('sp, 'sl, 'ec) hermes \<Rightarrow> tunables \<Rightarrow> 'sp \<Rightarrow> 'sl \<Rightarrow> real \<Rightarrow> real \<Rightarrow> int
     \<Rightarrow> (failure + 'sp \<times> 'sl \<times> real \<times> real \<times> int) option" where
  "wof_time_step H T space sln_prev_time current_time time_step ts =
     (case wof_begin_time_step H T ts space of
        Inl e \<Rightarrow> Some (Inl e)
      | Inr space1 \<Rightarrow>
          wof_end_time_step current_time ts
            (wof_adapt_loop H T current_time space1 sln_prev_time time_step 1))"

section \<open>2d-advanced/richards/seepage-adapt/main.cpp\<close>

text \<open>
  Lines 237-256, the periodic global derefinement: the same \<^verbatim>\<open>switch\<close> as in
  wall-on-fire-adapt, on \<^verbatim>\<open>mesh->unrefine_all_elements()\<close>, with no \<^verbatim>\<open>assign_dofs\<close>; the
  default case calls \<^verbatim>\<open>error("Wrong global derefinement method.")\<close>.
\<close>

definition seepage_derefine :: "('sp, 'sl, 'ec) hermes \<Rightarrow> tunables \<Rightarrow> 'sp \<Rightarrow> failure + 'sp" where
  "seepage_derefine H T space =
     (if UNREF_METHOD T = 1
        then Inr (set_uniform_order H (P_INIT T) (copy_basemesh H space))
      else if UNREF_METHOD T = 2
        then Inr (set_uniform_order H (P_INIT T) (unrefine_all_mesh_elements H space))
      else if UNREF_METHOD T = 3
        then Inr (adjust_element_order H (- 1) (- 1) (P_INIT T) (P_INIT T)
                    (unrefine_all_mesh_elements H space))
      else Inl WrongDerefinementMethod)"

definition seepage_begin_time_step ::
  "('sp, 'sl, 'ec) hermes \<Rightarrow> tunables \<Rightarrow> int \<Rightarrow> 'sp \<Rightarrow> failure + 'sp" where
  "seepage_begin_time_step H T ts space =
     (if ts > 1 \<and> ts mod UNREF_FREQ T = 0 then seepage_derefine H T space else Inr space)"

text \<open>
  The body of the spatial adaptivity loop, lines 262-336. The \<^verbatim>\<open>break\<close> of line 326
  leaves the loop before \<^verbatim>\<open>as++\<close>. The result is \<^verbatim>\<open>done\<close>, the space, \<^verbatim>\<open>sln\<close>,
  \<^verbatim>\<open>ref_sln\<close>, \<^verbatim>\<open>sln_prev_time\<close> and \<^verbatim>\<open>as\<close>.
\<close>

definition seepage_adapt_step ::
  "('sp, 'sl, 'ec) hermes \<Rightarrow> tunables \<Rightarrow> int \<Rightarrow> 'sp \<Rightarrow> 'sl \<Rightarrow> 'sl \<Rightarrow> 'sl \<Rightarrow> int
     \<Rightarrow> failure + (bool \<times> 'sp \<times> 'sl \<times> 'sl \<times> 'sl \<times> int)" where
  "seepage_adapt_step H T ts space sln ref_sln sln_prev_time as =
     (let ref_space = create_ref_space H space in
      case project_global H ref_space (if as = 1 \<and> ts = 1 then sln_prev_time else ref_sln) of
        None \<Rightarrow> Inl ProjectionFailed
      | Some coeff_vec \<Rightarrow>
          (case solve_newton H ref_space sln_prev_time coeff_vec of
             None \<Rightarrow> Inl NewtonFailed
           | Some ref_sln' \<Rightarrow>
               (case project_global H space ref_sln' of
                  None \<Rightarrow> Inl ProjectionFailed
                | Some sln' \<Rightarrow>
                    (let (err, ec) = calc_err_est H sln' ref_sln';
                         err_est = err * 100
                     in if err_est < ERR_STOP T
                        then Inr (True, space, sln', ref_sln', sln_prev_time, as)
                        else (let (done, space') = adapt H space ec
                              in if get_num_dofs H space' \<ge> NDOF_STOP T
                                 then Inr (True, space', sln', ref_sln', sln_prev_time, as)
                                 else Inr (done, space', sln', ref_sln', sln_prev_time, as + 1))))))"

partial_function (option) seepage_adapt_loop ::
  "('sp, 'sl, 'ec) hermes \<Rightarrow> tunables \<Rightarrow> int \<Rightarrow> 'sp \<Rightarrow> 'sl \<Rightarrow> 'sl \<Rightarrow> 'sl \<Rightarrow> int
     \<Rightarrow> (failure + 'sp \<times> 'sl \<times> 'sl \<times> 'sl \<times> int) option" where
  "seepage_adapt_loop H T ts space sln ref_sln sln_prev_time as =
     (case seepage_adapt_step H T ts space sln ref_sln sln_prev_time as of
        Inl e \<Rightarrow> Some (Inl e)
      | Inr (done, space', sln', ref_sln', sln_prev_time', as') \<Rightarrow>
          if done = False then seepage_adapt_loop H T ts space' sln' ref_sln' sln_prev_time' as'
          else Some (Inr (space', sln', ref_sln', sln_prev_time', as')))"

text \<open>
  Line 348, after the adaptivity loop: \<^verbatim>\<open>sln_prev_time.copy(ref_sln)\<close>. The result is
  the space, \<^verbatim>\<open>sln\<close>, \<^verbatim>\<open>ref_sln\<close> and \<^verbatim>\<open>sln_prev_time\<close>.
\<close>

definition seepage_end_time_step ::
  "(failure + 'sp \<times> 'sl \<times> 'sl \<times> 'sl \<times> int) option
     \<Rightarrow> (failure + 'sp \<times> 'sl \<times> 'sl \<times> 'sl) option" where
  "seepage_end_time_step outcome =
     (case outcome of
        None \<Rightarrow> None
      | Some (Inl e) \<Rightarrow> Some (Inl e)
      | Some (Inr (space', sln', ref_sln', sln_prev_time', as')) \<Rightarrow>
          Some (Inr (space', sln', ref_sln', ref_sln')))"

text \<open>One pass through the time stepping loop, lines 228-349.\<close>

definition seepage_time_step ::
  "('sp, 'sl, 'ec) hermes \<Rightarrow> tunables \<Rightarrow> int \<Rightarrow> 'sp \<Rightarrow> 'sl \<Rightarrow> 'sl \<Rightarrow> 'sl
     \<Rightarrow> (failure + 'sp \<times> 'sl \<times> 'sl \<times> 'sl) option" where
  "seepage_time_step H T ts space sln ref_sln sln_prev_time =
     (case seepage_begin_time_step H T ts space of
        Inl e \<Rightarrow> Some (Inl e)
      | Inr space1 \<Rightarrow>
          seepage_end_time_step
            (seepage_adapt_loop H T ts space1 sln ref_sln sln_prev_time 1))"

text \<open>The tunables of the file (lines 25, 35, 39, 67, 70); the others are not read.\<close>

definition seepage_tunables :: tunables where
  "seepage_tunables =
     \<lparr> ERR_STOP = 1 / 2, NDOF_STOP = 60000, MAX_ADAPT_NUM = 0, P_INIT = 1, UNREF_FREQ = 1,
       UNREF_METHOD = 3, SPACE_ERR_TOL = 0, ADAPTIVE_TIME_STEP_ON = False,
       TIME_ERR_TOL_UPPER = 0, TIME_ERR_TOL_LOWER = 0, TIME_STEP_INC_RATIO = 0,
       TIME_STEP_DEC_RATIO = 0, bt_is_embedded = False \<rparr>"

section \<open>The stopping policy of the specification\<close>


section \<open>A small concrete library\<close>

text \<open>
  A library to run the drivers on. A space is the number of its degrees of freedom; a
  solution is the exact solution or a finite element solution that remembers the space
  it lives on; the state of an error calculator is the squared total and the squared
  errors of the components. The total against the exact solution, the total against a
  reference solution, the errors of the components, and what \<open>adapt\<close> does to a space
  are the parameters.
\<close>

datatype toy_sln = ToyExact | ToyFE nat

definition toy ::
  "real \<Rightarrow> real \<Rightarrow> real list \<Rightarrow> (nat \<Rightarrow> bool \<times> nat) \<Rightarrow> (nat, toy_sln, real \<times> real list) hermes" where
  "toy e_exact e_est e_groups refine =
     \<lparr> create_ref_space = (\<lambda>sp. 2 * sp + 1),
       get_num_dofs = (\<lambda>sp. int sp),
       copy_basemesh = (\<lambda>sp. 2),
       unrefine_all_mesh_elements = (\<lambda>sp. sp div 2),
       set_uniform_order = (\<lambda>p sp. sp),
       adjust_element_order = (\<lambda>a b c d sp. sp),
       assign_dofs = (\<lambda>sp. sp),
       newton_solve = (\<lambda>sp. Some (ToyFE sp)),
       newton_solve_system = (\<lambda>sps prev guess. Some (map ToyFE sps)),
       rk_time_step_newton = (\<lambda>sp t tau prev. Some (ToyFE sp, ToyFE sp)),
       power_iteration = (\<lambda>sps iterates k. (map ToyFE sps, k)),
       project_global = (\<lambda>sp s. Some (ToyFE sp)),
       project_global_system = (\<lambda>sps ss. Some (map ToyFE sps)),
       calculate_errors =
         (\<lambda>calculator ss rs for_adapt.
            ((if ToyExact \<in> set rs then e_exact else e_est), e_groups)),
       get_total_error_squared = (\<lambda>ec. fst ec),
       get_error_squared = (\<lambda>ec g. snd ec ! g),
       calculate_norm = (\<lambda>s. 1),
       adapt = (\<lambda>sp ec. refine sp),
       adapt_system =
         (\<lambda>sps ec. (list_all (\<lambda>sp. fst (refine sp)) sps, map (\<lambda>sp. snd (refine sp)) sps)),
       solve_newton = (\<lambda>sp prev coeff_vec. Some (ToyFE sp)),
       calc_err_est = (\<lambda>s r. (e_est, (e_est, e_groups))) \<rparr>"

text \<open>
  Two ways for \<open>adapt\<close> to behave: \<open>grow\<close> adds one degree of freedom and reports that it
  is not done; \<open>stuck\<close> leaves the space as it is and reports that it is not done.
\<close>

definition grow :: "nat \<Rightarrow> bool \<times> nat" where
  "grow sp = (False, Suc sp)"


text \<open>
  A second library, which differs from the first in its error calculator only: the
  components have the squared errors \<open>e_components\<close>, whatever the solutions are, and a
  calculator totals the errors of the components it has an error form for. A
  \<^verbatim>\<open>DefaultErrorCalculator\<close> has the forms \<open>(g, g)\<close> of the components \<open>g\<close> below its
  component count.
\<close>

fun has_form :: "error_calculator \<Rightarrow> nat \<Rightarrow> bool" where
  "has_form (DefaultErrorCalculator nt component_count) g = (int g < component_count)"
| "has_form (ErrorCalculator forms) g = list_ex (\<lambda>form. fst form = g \<and> fst (snd form) = g) forms"

definition toy_by_forms ::
  "real list \<Rightarrow> (nat \<Rightarrow> bool \<times> nat) \<Rightarrow> (nat, toy_sln, real \<times> real list) hermes" where
  "toy_by_forms e_components refine =
     (toy 0 0 e_components refine)
       \<lparr> calculate_errors :=
           (\<lambda>calculator ss rs for_adapt.
              (sum_list (map (\<lambda>ge. if has_form calculator (fst ge) then snd ge else 0)
                           (enumerate 0 e_components)),
               e_components)) \<rparr>"

text \<open>The tunables of wall-on-fire-adapt/main.cpp (lines 29-74, 99).\<close>

definition wof_tunables :: tunables where
  "wof_tunables =
     \<lparr> ERR_STOP = 1 / 10, NDOF_STOP = 0, MAX_ADAPT_NUM = 0, P_INIT = 1, UNREF_FREQ = 1,
       UNREF_METHOD = 3, SPACE_ERR_TOL = 10, ADAPTIVE_TIME_STEP_ON = False,
       TIME_ERR_TOL_UPPER = 1, TIME_ERR_TOL_LOWER = 1 / 2, TIME_STEP_INC_RATIO = 11 / 10,
       TIME_STEP_DEC_RATIO = 8 / 10, bt_is_embedded = True \<rparr>"

section \<open>Claim C1: termination of the adaptivity loop\<close>











section \<open>Claim C2: the stop check\<close>




section \<open>Claim C3: the exact error and the stop decision\<close>

text \<open>
  C3: the exact error is diagnostic only; neither the refinement selection nor the stop
  decision of the loop depends on it. In 1d/layer-boundary and lshape the stop test reads
  \<^verbatim>\<open>err_exact_rel\<close> (main.cpp 195 and 165), under the comment "If err_est too large,
  adapt the mesh", where 2d-benchmarks-general/layer-boundary (main.cpp 173) reads
  \<^verbatim>\<open>err_est_rel\<close>. The two drivers run on two libraries that differ in the exact error
  only (the estimate is 25 percent in both): with an exact error below \<open>ERR_STOP\<close> the
  step is done and nothing is refined; with an exact error of 25 percent the step refines
  and is not done.
\<close>

theorem C3_stop_decided_by_exact_error:
  "lb1d_step (toy (1 / 200000) (1 / 4) [] grow) ToyExact lb1d_tunables 10 1
     = Inr (True, 10, 1,
            \<lparr> ndof_coarse = 10, ndof_fine = 21, reported_err_est = 25,
              reported_err_exact = 1 / 2000 \<rparr>)
   \<and> lb1d_step (toy (1 / 4) (1 / 4) [] grow) ToyExact lb1d_tunables 10 1
     = Inr (False, 11, 2,
            \<lparr> ndof_coarse = 10, ndof_fine = 21, reported_err_est = 25,
              reported_err_exact = 25 \<rparr>)
   \<and> lshape_step (toy (1 / 2000000) (1 / 4) [] grow) ToyExact lshape_tunables 10 1
     = Inr (True, 10, 1,
            \<lparr> ndof_coarse = 10, ndof_fine = 21, reported_err_est = 25,
              reported_err_exact = 1 / 20000 \<rparr>)
   \<and> lshape_step (toy (1 / 4) (1 / 4) [] grow) ToyExact lshape_tunables 10 1
     = Inr (False, 11, 2,
            \<lparr> ndof_coarse = 10, ndof_fine = 21, reported_err_est = 25,
              reported_err_exact = 25 \<rparr>)"
  by (simp add: lb1d_step_def lb1d_stop_check_def lshape_step_def lshape_stop_check_def
      err_exact_rel_def err_est_rel_def toy_def grow_def lb1d_tunables_def lshape_tunables_def
      Let_def)

section \<open>Claim C4: the reported percentage\<close>




section \<open>Claim C5: a failed solve on the reference space\<close>

text \<open>
  C5: whenever the nonlinear solve on the reference space fails, the whole adaptivity
  invocation aborts with the failure as its result; no step continues past a failed
  solve. The statement is about a step that starts from any state, hence about every step
  of a run: the loops of 1d/layer-boundary, lshape, 1d/system and poisson-timedep-adapt
  (the \<^verbatim>\<open>catch\<close> rethrows "Newton's iteration failed."; the time step of the last one
  ends with the same failure), of wall-on-fire-adapt (\<^verbatim>\<open>main\<close> returns -1 when the
  Runge-Kutta step fails) and of seepage-adapt (\<^verbatim>\<open>error("Newton's iteration failed.")\<close>).
\<close>

theorem C5_failed_solve_aborts:
  "(newton_solve H (create_ref_space H space) = None
      \<longrightarrow> lb1d_loop H exact_sln T space as = Some (Inl NewtonFailed)
        \<and> lshape_loop H exact_sln T space as = Some (Inl NewtonFailed))
   \<and> (newton_solve_system H (map (create_ref_space H) spaces) [] [] = None
      \<longrightarrow> sys1d_loop H exact_slns T spaces as = Some (Inl NewtonFailed))
   \<and> (newton_solve_system H (map (create_ref_space H) spaces) prev_time
         (if as = 1 \<and> ts = 1 then slns else ref_slns) = None
      \<longrightarrow> np_adapt_loop H T ts spaces slns ref_slns prev_time as = Some (Inl NewtonFailed)
        \<and> np_end_time_step (np_adapt_loop H T ts spaces slns ref_slns prev_time as)
              = Some (Inl NewtonFailed))
   \<and> (project_global H (create_ref_space H space) sln_prev_time = Some p
       \<and> rk_time_step_newton H (create_ref_space H space) current_time time_step p = None
      \<longrightarrow> wof_adapt_loop H T current_time space sln_prev_time time_step as
            = Some (Inl RungeKuttaFailed))
   \<and> (project_global H (create_ref_space H space)
          (if as = 1 \<and> ts = 1 then sln_prev_time else ref_sln) = Some c
       \<and> solve_newton H (create_ref_space H space) sln_prev_time c = None
      \<longrightarrow> seepage_adapt_loop H T ts space sln ref_sln sln_prev_time as = Some (Inl NewtonFailed))"
proof -
  have a: "newton_solve H (create_ref_space H space) = None
      \<longrightarrow> lb1d_loop H exact_sln T space as = Some (Inl NewtonFailed)
        \<and> lshape_loop H exact_sln T space as = Some (Inl NewtonFailed)"
  proof
    assume n: "newton_solve H (create_ref_space H space) = None"
    have "lb1d_loop H exact_sln T space as = Some (Inl NewtonFailed)"
      by (subst lb1d_loop.simps) (simp add: lb1d_step_def n)
    moreover have "lshape_loop H exact_sln T space as = Some (Inl NewtonFailed)"
      by (subst lshape_loop.simps) (simp add: lshape_step_def n)
    ultimately show "lb1d_loop H exact_sln T space as = Some (Inl NewtonFailed)
        \<and> lshape_loop H exact_sln T space as = Some (Inl NewtonFailed)" ..
  qed
  have b: "newton_solve_system H (map (create_ref_space H) spaces) [] [] = None
      \<longrightarrow> sys1d_loop H exact_slns T spaces as = Some (Inl NewtonFailed)"
  proof
    assume n: "newton_solve_system H (map (create_ref_space H) spaces) [] [] = None"
    show "sys1d_loop H exact_slns T spaces as = Some (Inl NewtonFailed)"
      by (subst sys1d_loop.simps) (simp add: sys1d_step_def n)
  qed
  have c: "newton_solve_system H (map (create_ref_space H) spaces) prev_time
         (if as = 1 \<and> ts = 1 then slns else ref_slns) = None
      \<longrightarrow> np_adapt_loop H T ts spaces slns ref_slns prev_time as = Some (Inl NewtonFailed)
        \<and> np_end_time_step (np_adapt_loop H T ts spaces slns ref_slns prev_time as)
              = Some (Inl NewtonFailed)"
  proof
    assume n: "newton_solve_system H (map (create_ref_space H) spaces) prev_time
         (if as = 1 \<and> ts = 1 then slns else ref_slns) = None"
    have l: "np_adapt_loop H T ts spaces slns ref_slns prev_time as = Some (Inl NewtonFailed)"
      by (subst np_adapt_loop.simps) (simp add: np_adapt_step_def n)
    then show "np_adapt_loop H T ts spaces slns ref_slns prev_time as = Some (Inl NewtonFailed)
        \<and> np_end_time_step (np_adapt_loop H T ts spaces slns ref_slns prev_time as)
              = Some (Inl NewtonFailed)"
      by (simp add: np_end_time_step_def)
  qed
  have d: "project_global H (create_ref_space H space) sln_prev_time = Some p
       \<and> rk_time_step_newton H (create_ref_space H space) current_time time_step p = None
      \<longrightarrow> wof_adapt_loop H T current_time space sln_prev_time time_step as
            = Some (Inl RungeKuttaFailed)"
  proof
    assume n: "project_global H (create_ref_space H space) sln_prev_time = Some p
       \<and> rk_time_step_newton H (create_ref_space H space) current_time time_step p = None"
    show "wof_adapt_loop H T current_time space sln_prev_time time_step as
            = Some (Inl RungeKuttaFailed)"
      by (subst wof_adapt_loop.simps) (simp add: wof_adapt_step_def n)
  qed
  have e: "project_global H (create_ref_space H space)
          (if as = 1 \<and> ts = 1 then sln_prev_time else ref_sln) = Some c
       \<and> solve_newton H (create_ref_space H space) sln_prev_time c = None
      \<longrightarrow> seepage_adapt_loop H T ts space sln ref_sln sln_prev_time as = Some (Inl NewtonFailed)"
  proof
    assume n: "project_global H (create_ref_space H space)
          (if as = 1 \<and> ts = 1 then sln_prev_time else ref_sln) = Some c
       \<and> solve_newton H (create_ref_space H space) sln_prev_time c = None"
    show "seepage_adapt_loop H T ts space sln ref_sln sln_prev_time as = Some (Inl NewtonFailed)"
      by (subst seepage_adapt_loop.simps) (simp add: seepage_adapt_step_def n)
  qed
  from a b c d e show ?thesis by (intro conjI)
qed

text \<open>
  The theorem on libraries whose Newton solver, or whose Runge-Kutta step, always fails,
  with the tunables of the six files.
\<close>

theorem C5_failed_solve_aborts_witness:
  "lb1d_loop ((toy 1 1 [] grow)\<lparr>newton_solve := (\<lambda>sp. None)\<rparr>) ToyExact lb1d_tunables 10 1
      = Some (Inl NewtonFailed)
   \<and> lshape_loop ((toy 1 1 [] grow)\<lparr>newton_solve := (\<lambda>sp. None)\<rparr>) ToyExact lshape_tunables 10 1
      = Some (Inl NewtonFailed)
   \<and> sys1d_loop ((toy 1 1 [] grow)\<lparr>newton_solve_system := (\<lambda>sps prev guess. None)\<rparr>)
        [ToyExact, ToyExact] sys1d_tunables [10, 20] 1
      = Some (Inl NewtonFailed)
   \<and> np_adapt_loop ((toy 1 1 [] grow)\<lparr>newton_solve_system := (\<lambda>sps prev guess. None)\<rparr>)
        np_tunables 1 [10, 20] [ToyFE 10, ToyFE 20] [] [ToyFE 10, ToyFE 20] 1
      = Some (Inl NewtonFailed)
   \<and> wof_adapt_loop ((toy 1 1 [] grow)\<lparr>rk_time_step_newton := (\<lambda>sp t tau prev. None)\<rparr>)
        wof_tunables 0 5 (ToyFE 5) 20 1
      = Some (Inl RungeKuttaFailed)
   \<and> seepage_adapt_loop ((toy 1 1 [] grow)\<lparr>solve_newton := (\<lambda>sp prev coeff_vec. None)\<rparr>)
        seepage_tunables 1 5 (ToyFE 5) (ToyFE 5) (ToyFE 5) 1
      = Some (Inl NewtonFailed)"
proof -
  let ?H = "(toy 1 1 [] grow)\<lparr>newton_solve := (\<lambda>sp. None)\<rparr>"
  let ?S = "(toy 1 1 [] grow)\<lparr>newton_solve_system := (\<lambda>sps prev guess. None)\<rparr>"
  let ?R = "(toy 1 1 [] grow)\<lparr>rk_time_step_newton := (\<lambda>sp t tau prev. None)\<rparr>"
  let ?N = "(toy 1 1 [] grow)\<lparr>solve_newton := (\<lambda>sp prev coeff_vec. None)\<rparr>"
  have h: "newton_solve ?H (create_ref_space ?H 10) = None"
    by simp
  have s: "newton_solve_system ?S (map (create_ref_space ?S) [10, 20]) [] [] = None"
    by simp
  have n: "newton_solve_system ?S (map (create_ref_space ?S) [10, 20]) [ToyFE 10, ToyFE 20]
             (if (1::int) = 1 \<and> (1::int) = 1 then [ToyFE 10, ToyFE 20] else []) = None"
    by simp
  have r: "project_global ?R (create_ref_space ?R 5) (ToyFE 5) = Some (ToyFE 11)
       \<and> rk_time_step_newton ?R (create_ref_space ?R 5) 0 20 (ToyFE 11) = None"
    by (simp add: toy_def)
  have e: "project_global ?N (create_ref_space ?N 5)
             (if (1::int) = 1 \<and> (1::int) = 1 then ToyFE 5 else ToyFE 5) = Some (ToyFE 11)
       \<and> solve_newton ?N (create_ref_space ?N 5) (ToyFE 5) (ToyFE 11) = None"
    by (simp add: toy_def)
  have a: "lb1d_loop ?H ToyExact lb1d_tunables 10 1 = Some (Inl NewtonFailed)"
    using C5_failed_solve_aborts [where H = ?H and space = 10 and exact_sln = ToyExact
        and T = lb1d_tunables and as = 1, THEN conjunct1, THEN mp, OF h, THEN conjunct1] .
  have b: "lshape_loop ?H ToyExact lshape_tunables 10 1 = Some (Inl NewtonFailed)"
    using C5_failed_solve_aborts [where H = ?H and space = 10 and exact_sln = ToyExact
        and T = lshape_tunables and as = 1, THEN conjunct1, THEN mp, OF h, THEN conjunct2] .
  have c: "sys1d_loop ?S [ToyExact, ToyExact] sys1d_tunables [10, 20] 1 = Some (Inl NewtonFailed)"
    using C5_failed_solve_aborts [where H = ?S and spaces = "[10, 20]"
        and exact_slns = "[ToyExact, ToyExact]" and T = sys1d_tunables and as = 1,
        THEN conjunct2, THEN conjunct1, THEN mp, OF s] .
  have d: "np_adapt_loop ?S np_tunables 1 [10, 20] [ToyFE 10, ToyFE 20] [] [ToyFE 10, ToyFE 20] 1
             = Some (Inl NewtonFailed)"
    using C5_failed_solve_aborts [where H = ?S and spaces = "[10, 20]"
        and prev_time = "[ToyFE 10, ToyFE 20]" and slns = "[ToyFE 10, ToyFE 20]"
        and ref_slns = "[]" and T = np_tunables and as = 1 and ts = 1,
        THEN conjunct2, THEN conjunct2, THEN conjunct1, THEN mp, OF n, THEN conjunct1] .
  have f: "wof_adapt_loop ?R wof_tunables 0 5 (ToyFE 5) 20 1 = Some (Inl RungeKuttaFailed)"
    using C5_failed_solve_aborts [where H = ?R and space = 5 and sln_prev_time = "ToyFE 5"
        and p = "ToyFE 11" and current_time = 0 and time_step = 20 and T = wof_tunables
        and as = 1, THEN conjunct2, THEN conjunct2, THEN conjunct2, THEN conjunct1, THEN mp, OF r] .
  have g: "seepage_adapt_loop ?N seepage_tunables 1 5 (ToyFE 5) (ToyFE 5) (ToyFE 5) 1
             = Some (Inl NewtonFailed)"
    using C5_failed_solve_aborts [where H = ?N and space = 5 and sln_prev_time = "ToyFE 5"
        and ref_sln = "ToyFE 5" and sln = "ToyFE 5" and c = "ToyFE 11" and T = seepage_tunables
        and as = 1 and ts = 1,
        THEN conjunct2, THEN conjunct2, THEN conjunct2, THEN conjunct2, THEN mp, OF e] .
  from a b c d f g show ?thesis by (intro conjI)
qed

section \<open>Claim C8: the stop decision of the multi-component drivers\<close>

text \<open>
  The number a step of 1d/system, of poisson-timedep-adapt and of 4-group-adapt tests
  against \<open>ERR_STOP\<close> is 100 times the total of the driver's error calculator after
  \<^verbatim>\<open>calculate_errors\<close> on the solutions of all components: the flag \<^verbatim>\<open>done\<close> and the spaces
  are what the stop check makes of that number.
\<close>

lemma sys1d_step_tests_total:
  assumes "newton_solve_system H (map (create_ref_space H) spaces) [] [] = Some ref_slns"
    and "project_global_system H spaces ref_slns = Some slns"
  shows "\<exists>rep. sys1d_step H exact_slns T spaces as
           = Inr (fst (sys1d_stop_check H T spaces
                         (calculate_errors H sys1d_errorCalculator slns ref_slns True)
                         (get_total_error_squared H
                            (calculate_errors H sys1d_errorCalculator slns ref_slns True) * 100)),
                  snd (sys1d_stop_check H T spaces
                         (calculate_errors H sys1d_errorCalculator slns ref_slns True)
                         (get_total_error_squared H
                            (calculate_errors H sys1d_errorCalculator slns ref_slns True) * 100)),
                  as + 1, rep)"
  using assms
  by (simp add: sys1d_step_def err_est_rel_def err_exact_rel_def Let_def split: prod.splits)

lemma np_adapt_step_tests_total:
  assumes "newton_solve_system H (map (create_ref_space H) spaces) prev_time
             (if as = 1 \<and> ts = 1 then old_slns else old_ref_slns) = Some ref_slns"
    and "project_global_system H spaces ref_slns = Some slns"
  shows "\<exists>done spaces' as'.
           np_adapt_step H T ts spaces old_slns old_ref_slns prev_time as
             = Inr (done, spaces', slns, ref_slns, prev_time, as')
           \<and> (done, spaces', as')
             = np_stop_check H T spaces
                 (calculate_errors H np_errorCalculator slns ref_slns True)
                 (get_total_error_squared H
                    (calculate_errors H np_errorCalculator slns ref_slns True) * 100)
                 as"
  using assms
  by (simp add: np_adapt_step_def err_est_rel_def Let_def split: prod.splits)

lemma ng4_step_tests_total:
  "\<exists>power_iterates' k_eff' rep done spaces' as'.
     ng4_step H coarse_solutions T spaces power_iterates k_eff as
       = (done, spaces', power_iterates', k_eff', as', rep)
     \<and> (power_iterates', k_eff')
       = power_iteration H (map (create_ref_space H) spaces) power_iterates k_eff
     \<and> (done, spaces', as')
       = ng4_stop_check H T spaces
           (calculate_errors H ng4_H1errorCalculator coarse_solutions power_iterates' True)
           (get_total_error_squared H
              (calculate_errors H ng4_L2errorCalculator coarse_solutions power_iterates' True)
            * 100)
           as"
  by (simp add: ng4_step_def Let_def split: prod.splits)

text \<open>
  C8: for multi-component problems the stop decision rests on the total error over all
  components; the error of one component falling below \<open>ERR_STOP\<close> does not end the loop
  while the total over all components is at or above \<open>ERR_STOP\<close>.

  4-group-adapt gives its calculators an error form for each of the four groups
  (main.cpp 310-314) and poisson-timedep-adapt builds its calculator for two components
  (main.cpp 118). 1d/system builds its calculator for one component (main.cpp 49) and
  hands it the two solutions \<open>u\<close> and \<open>v\<close> (main.cpp 217). On a library whose calculator
  totals the components it has an error form for, with spaces of 10 and 20 degrees of
  freedom:
  \<^item> with the squared errors 1/100000 of \<open>u\<close> and 1 of \<open>v\<close>, 1d/system logs a total of
    0.001 percent, sets \<^verbatim>\<open>done\<close> and refines nothing, while the total over both components
    is 100.001 percent;
  \<^item> with the errors exchanged, 1d/system refines;
  \<^item> poisson-timedep-adapt refines in both cases;
  \<^item> 4-group-adapt, with the squared errors 1/100000 of three groups and 1 of the
    fourth, refines.
\<close>

theorem C8_sys1d_stops_on_first_component:
  "sys1d_step (toy_by_forms [1 / 100000, 1] grow) [ToyExact, ToyExact] sys1d_tunables [10, 20] 1
     = Inr (True, [10, 20], 2,
            \<lparr> ndof_coarse = 30, ndof_fine = 62, reported_err_est = 1 / 1000,
              reported_err_exact = 1 / 1000 \<rparr>)
   \<and> get_total_error_squared (toy_by_forms [1 / 100000, 1] grow)
        (calculate_errors (toy_by_forms [1 / 100000, 1] grow)
           (DefaultErrorCalculator HERMES_H1_NORM 2)
           [ToyFE 10, ToyFE 20] [ToyFE 21, ToyFE 41] True) * 100
     = 100001 / 1000
   \<and> sys1d_step (toy_by_forms [1, 1 / 100000] grow) [ToyExact, ToyExact] sys1d_tunables [10, 20] 1
     = Inr (False, [11, 21], 2,
            \<lparr> ndof_coarse = 30, ndof_fine = 62, reported_err_est = 100,
              reported_err_exact = 100 \<rparr>)
   \<and> np_adapt_step (toy_by_forms [1 / 100000, 1] grow) np_tunables 1 [10, 20]
        [ToyFE 10, ToyFE 20] [] [ToyFE 10, ToyFE 20] 1
     = Inr (False, [11, 21], [ToyFE 10, ToyFE 20], [ToyFE 21, ToyFE 41],
            [ToyFE 10, ToyFE 20], 2)
   \<and> np_adapt_step (toy_by_forms [1, 1 / 100000] grow) np_tunables 1 [10, 20]
        [ToyFE 10, ToyFE 20] [] [ToyFE 10, ToyFE 20] 1
     = Inr (False, [11, 21], [ToyFE 10, ToyFE 20], [ToyFE 21, ToyFE 41],
            [ToyFE 10, ToyFE 20], 2)
   \<and> ng4_step (toy_by_forms [1 / 100000, 1 / 100000, 1 / 100000, 1] grow)
        [ToyFE 10, ToyFE 20, ToyFE 30, ToyFE 40] ng4_tunables [10, 20, 30, 40] [] 1 1
     = (False, [11, 21, 31, 41], [ToyFE 21, ToyFE 41, ToyFE 61, ToyFE 81], 1, 2,
        \<lparr> h1_group_errors = [1 / 1000, 1 / 1000, 1 / 1000, 100],
          l2_group_errors = [1 / 1000, 1 / 1000, 1 / 1000, 100],
          h1_err_est = 100003 / 1000, l2_err_est = 100003 / 1000, ng4_ndof_coarse = 100 \<rparr>)"
  by (simp add: sys1d_step_def sys1d_stop_check_def sys1d_errorCalculator_def sys1d_tunables_def
      np_adapt_step_def np_stop_check_def np_errorCalculator_def np_tunables_def
      ng4_step_def ng4_stop_check_def ng4_ndof_def ng4_H1errorCalculator_def
      ng4_L2errorCalculator_def ng4_tunables_def
      err_est_rel_def err_exact_rel_def toy_by_forms_def toy_def grow_def Let_def)

section \<open>Claim C9: the solution of the previous time level\<close>

text \<open>
  C9: during one spatial adaptivity loop the solution of the previous time level is only
  read; it is replaced once per time step, after the loop, by a copy of the last
  reference solution. wall-on-fire-adapt says so (lines 216-217: "sln_prev_time must not
  be changed during spatial adaptivity") and then, line 235, projects
  \<^verbatim>\<open>sln_prev_time\<close> onto the reference space into \<^verbatim>\<open>sln_prev_time\<close> itself, in every
  pass through the loop. One pass with the tunables of the file, from a coarse space of 5
  degrees of freedom: \<^verbatim>\<open>sln_prev_time\<close> lived on that space and lives on the reference
  space of 11 degrees of freedom afterwards, while the loop is not done.
\<close>

theorem C9_prev_time_overwritten_in_loop:
  "wof_adapt_step (toy 1 1 [] grow) wof_tunables 0 5 (ToyFE 5) 20 1
     = Inr (False, 6, ToyFE 11, 20, 2, ToyFE 11)"
  by (simp add: wof_adapt_step_def wof_adaptive_time_step_on_def err_est_rel_def toy_def grow_def
      wof_tunables_def Let_def)

text \<open>
  On every library: after a pass through the loop of wall-on-fire-adapt that does not
  fail, \<^verbatim>\<open>sln_prev_time\<close> is the projection onto the reference space of what it was.
\<close>

lemma wof_adapt_step_prev_time:
  assumes "wof_adapt_step H T current_time space sln_prev_time time_step as
             = Inr (dn, space', sln_prev_time', time_step', as', ref_sln)"
  shows "project_global H (create_ref_space H space) sln_prev_time = Some sln_prev_time'"
  using assms
  by (auto simp: wof_adapt_step_def Let_def split: option.splits prod.splits if_splits)

text \<open>
  The loop of poisson-timedep-adapt does what C9 says: whenever it returns, \<open>prev_time\<close>
  is what it was when the loop was entered.
\<close>

lemma np_adapt_step_prev_time:
  assumes "np_adapt_step H T ts spaces slns ref_slns prev_time as
             = Inr (dn, spaces', slns', ref_slns', prev_time', as')"
  shows "prev_time' = prev_time"
  using assms
  by (auto simp: np_adapt_step_def Let_def split: option.splits prod.splits)

lemma np_adapt_loop_prev_time:
  assumes a: "np_adapt_loop H T ts spaces slns ref_slns prev_time as = Some r"
  shows "case r of Inl e \<Rightarrow> True
         | Inr (spaces', slns', ref_slns', prev_time', as') \<Rightarrow> prev_time' = prev_time"
proof -
  let ?P = "\<lambda>(H::('a, 'b, 'c) hermes) (T::tunables) (ts::int) (spaces::'a list) (slns::'b list)
              (ref_slns::'b list) (prev_time::'b list) (as::int)
              (r::failure + 'a list \<times> 'b list \<times> 'b list \<times> 'b list \<times> int).
              case r of Inl e \<Rightarrow> True
              | Inr (spaces', slns', ref_slns', prev_time', as') \<Rightarrow> prev_time' = prev_time"
  show ?thesis
  proof (rule np_adapt_loop.raw_induct [where P = ?P, OF _ a])
    fix loop H T ts spaces slns ref_slns prev_time as r
    assume IH: "\<And>H T ts spaces slns ref_slns prev_time as r.
                  loop H T ts spaces slns ref_slns prev_time as = Some r
                  \<Longrightarrow> ?P H T ts spaces slns ref_slns prev_time as r"
    assume body: "(case np_adapt_step H T ts spaces slns ref_slns prev_time as of
        Inl e \<Rightarrow> Some (Inl e)
      | Inr (dn, spaces', slns', ref_slns', prev_time', as') \<Rightarrow>
          if dn = False then loop H T ts spaces' slns' ref_slns' prev_time' as'
          else Some (Inr (spaces', slns', ref_slns', prev_time', as'))) = Some r"
    show "?P H T ts spaces slns ref_slns prev_time as r"
    proof (cases "np_adapt_step H T ts spaces slns ref_slns prev_time as")
      case (Inl e)
      with body show ?thesis by auto
    next
      case (Inr x)
      obtain dn spaces' slns' ref_slns' prev_time' as' where
        x: "x = (dn, spaces', slns', ref_slns', prev_time', as')"
        by (metis prod_cases6)
      from Inr x np_adapt_step_prev_time have p: "prev_time' = prev_time" by blast
      show ?thesis
      proof (cases dn)
        case True
        with body Inr x p show ?thesis by auto
      next
        case False
        with body Inr x p have "loop H T ts spaces' slns' ref_slns' prev_time as' = Some r"
          by simp
        from IH [OF this] show ?thesis .
      qed
    qed
  qed
qed

section \<open>Claim C10: periodic global derefinement\<close>

text \<open>
  C10: at the start of each time step \<open>ts\<close> with \<open>ts > 1\<close> and \<open>ts mod UNREF_FREQ = 0\<close>
  the coarse mesh is globally derefined and the polynomial orders are reset or decreased
  before the spatial adaptivity loop runs: the loop of that time step starts from the
  derefined space. poisson-timedep-adapt resets every mesh to the base mesh and the
  orders to \<open>P_INIT\<close>; wall-on-fire-adapt and seepage-adapt do what \<open>UNREF_METHOD\<close> says
  (1: base mesh, orders reset to \<open>P_INIT\<close>; 2: one layer of refinement removed, orders
  reset to \<open>P_INIT\<close>; 3: one layer removed, orders decreased by one, not below \<open>P_INIT\<close>).
  The DOF count of the derefined space is what the library makes it, so it may be lower
  than at the end of the previous time step.
\<close>

theorem C10_derefinement_before_adaptivity:
  assumes "1 < ts" and "ts mod UNREF_FREQ T = 0"
  shows "np_time_step H T ts spaces slns ref_slns prev_time
           = np_end_time_step
               (np_adapt_loop H T ts
                  (map (\<lambda>space. assign_dofs H (set_uniform_order H (P_INIT T) (copy_basemesh H space)))
                     spaces)
                  slns ref_slns prev_time 1)
   \<and> (UNREF_METHOD T = 1 \<longrightarrow>
        wof_time_step H T space sln_prev_time current_time time_step ts
          = wof_end_time_step current_time ts
              (wof_adapt_loop H T current_time
                 (assign_dofs H (set_uniform_order H (P_INIT T) (copy_basemesh H space)))
                 sln_prev_time time_step 1)
        \<and> seepage_time_step H T ts space sln ref_sln sln_prev_time
          = seepage_end_time_step
              (seepage_adapt_loop H T ts
                 (set_uniform_order H (P_INIT T) (copy_basemesh H space))
                 sln ref_sln sln_prev_time 1))
   \<and> (UNREF_METHOD T = 2 \<longrightarrow>
        wof_time_step H T space sln_prev_time current_time time_step ts
          = wof_end_time_step current_time ts
              (wof_adapt_loop H T current_time
                 (assign_dofs H
                    (set_uniform_order H (P_INIT T) (unrefine_all_mesh_elements H space)))
                 sln_prev_time time_step 1)
        \<and> seepage_time_step H T ts space sln ref_sln sln_prev_time
          = seepage_end_time_step
              (seepage_adapt_loop H T ts
                 (set_uniform_order H (P_INIT T) (unrefine_all_mesh_elements H space))
                 sln ref_sln sln_prev_time 1))
   \<and> (UNREF_METHOD T = 3 \<longrightarrow>
        wof_time_step H T space sln_prev_time current_time time_step ts
          = wof_end_time_step current_time ts
              (wof_adapt_loop H T current_time
                 (assign_dofs H
                    (adjust_element_order H (- 1) (- 1) (P_INIT T) (P_INIT T)
                       (unrefine_all_mesh_elements H space)))
                 sln_prev_time time_step 1)
        \<and> seepage_time_step H T ts space sln ref_sln sln_prev_time
          = seepage_end_time_step
              (seepage_adapt_loop H T ts
                 (adjust_element_order H (- 1) (- 1) (P_INIT T) (P_INIT T)
                    (unrefine_all_mesh_elements H space))
                 sln ref_sln sln_prev_time 1))"
  using assms
  by (simp add: np_time_step_def np_begin_time_step_def np_derefine_def
      wof_time_step_def wof_begin_time_step_def wof_derefine_def
      seepage_time_step_def seepage_begin_time_step_def seepage_derefine_def)

text \<open>
  A time step of wall-on-fire-adapt with the tunables of the file on the small library,
  where removing a layer of refinement halves the degrees of freedom and an estimate of
  1 percent is below \<open>SPACE_ERR_TOL\<close>: the adaptivity loop, entered with 4 degrees of
  freedom, is done after one pass.
\<close>

lemma wof_toy_loop:
  "wof_adapt_loop (toy 1 (1 / 100) [] grow) wof_tunables 0 4 (ToyFE 8) 20 1
     = Some (Inr (4, ToyFE 9, 20, 1, ToyFE 9))"
  by (subst wof_adapt_loop.simps)
     (simp add: wof_adapt_step_def wof_adaptive_time_step_on_def err_est_rel_def toy_def grow_def
        wof_tunables_def Let_def)

text \<open>
  The same for poisson-timedep-adapt, entered with two spaces of 2 degrees of freedom, and
  for seepage-adapt, entered with 4.
\<close>

lemma np_toy_loop:
  "np_adapt_loop (toy 1 (1 / 10000) [] grow) np_tunables 2 [2, 2] [ToyFE 8, ToyFE 8]
       [ToyFE 17, ToyFE 17] [ToyFE 17, ToyFE 17] 1
     = Some (Inr ([2, 2], [ToyFE 2, ToyFE 2], [ToyFE 5, ToyFE 5], [ToyFE 17, ToyFE 17], 1))"
  by (subst np_adapt_loop.simps)
     (simp add: np_adapt_step_def np_stop_check_def err_est_rel_def toy_def grow_def
        np_tunables_def Let_def)

lemma seepage_toy_loop:
  "seepage_adapt_loop (toy 1 (1 / 1000) [] grow) seepage_tunables 2 4 (ToyFE 8) (ToyFE 17)
       (ToyFE 17) 1
     = Some (Inr (4, ToyFE 4, ToyFE 9, ToyFE 17, 1))"
  by (subst seepage_adapt_loop.simps)
     (simp add: seepage_adapt_step_def toy_def grow_def seepage_tunables_def Let_def)

text \<open>
  The theorem at time step 2 with the tunables of the three files: the spaces of 8
  degrees of freedom are derefined (to 4, to 2 and to 4) before the loop runs, and the
  time step ends with fewer degrees of freedom than it began with.
\<close>

theorem C10_derefinement_before_adaptivity_witness:
  "(1::int) < 2 \<and> (2::int) mod UNREF_FREQ wof_tunables = 0 \<and> UNREF_METHOD wof_tunables = 3
   \<and> wof_time_step (toy 1 (1 / 100) [] grow) wof_tunables 8 (ToyFE 8) 0 20 2
       = Some (Inr (4, ToyFE 9, 20, 20, 3))
   \<and> get_num_dofs (toy 1 (1 / 100) [] grow) 4 < get_num_dofs (toy 1 (1 / 100) [] grow) 8
   \<and> (2::int) mod UNREF_FREQ np_tunables = 0
   \<and> np_time_step (toy 1 (1 / 10000) [] grow) np_tunables 2 [8, 8] [ToyFE 8, ToyFE 8]
        [ToyFE 17, ToyFE 17] [ToyFE 17, ToyFE 17]
       = Some (Inr ([2, 2], [ToyFE 2, ToyFE 2], [ToyFE 5, ToyFE 5], [ToyFE 5, ToyFE 5]))
   \<and> (2::int) mod UNREF_FREQ seepage_tunables = 0 \<and> UNREF_METHOD seepage_tunables = 3
   \<and> seepage_time_step (toy 1 (1 / 1000) [] grow) seepage_tunables 2 8 (ToyFE 8) (ToyFE 17)
        (ToyFE 17)
       = Some (Inr (4, ToyFE 4, ToyFE 9, ToyFE 9))"
proof -
  let ?H = "toy 1 (1 / 100) [] grow"
  let ?N = "toy 1 (1 / 10000) [] grow"
  let ?S = "toy 1 (1 / 1000) [] grow"
  have h1: "(1::int) < 2" by simp
  have h2: "(2::int) mod UNREF_FREQ wof_tunables = 0" by (simp add: wof_tunables_def)
  have h3: "UNREF_METHOD wof_tunables = 3" by (simp add: wof_tunables_def)
  have n2: "(2::int) mod UNREF_FREQ np_tunables = 0" by (simp add: np_tunables_def)
  have s2: "(2::int) mod UNREF_FREQ seepage_tunables = 0" by (simp add: seepage_tunables_def)
  have s3: "UNREF_METHOD seepage_tunables = 3" by (simp add: seepage_tunables_def)
  have d: "assign_dofs ?H (adjust_element_order ?H (- 1) (- 1) (P_INIT wof_tunables)
             (P_INIT wof_tunables) (unrefine_all_mesh_elements ?H 8)) = 4"
    by (simp add: toy_def)
  have dn: "map (\<lambda>space. assign_dofs ?N (set_uniform_order ?N (P_INIT np_tunables)
              (copy_basemesh ?N space))) [8, 8] = [2, 2]"
    by (simp add: toy_def)
  have ds: "adjust_element_order ?S (- 1) (- 1) (P_INIT seepage_tunables)
             (P_INIT seepage_tunables) (unrefine_all_mesh_elements ?S 8) = 4"
    by (simp add: toy_def)
  have "wof_time_step ?H wof_tunables 8 (ToyFE 8) 0 20 2
       = wof_end_time_step 0 2 (wof_adapt_loop ?H wof_tunables 0 4 (ToyFE 8) 20 1)"
    using C10_derefinement_before_adaptivity [OF h1 h2, where H = ?H and space = 8
        and sln_prev_time = "ToyFE 8" and current_time = 0 and time_step = 20,
        THEN conjunct2, THEN conjunct2, THEN conjunct2, THEN mp, OF h3, THEN conjunct1]
    unfolding d .
  then have a: "wof_time_step ?H wof_tunables 8 (ToyFE 8) 0 20 2
       = Some (Inr (4, ToyFE 9, 20, 20, 3))"
    by (simp add: wof_toy_loop wof_end_time_step_def)
  have b: "get_num_dofs ?H 4 < get_num_dofs ?H 8"
    by (simp add: toy_def)
  have "np_time_step ?N np_tunables 2 [8, 8] [ToyFE 8, ToyFE 8] [ToyFE 17, ToyFE 17]
          [ToyFE 17, ToyFE 17]
       = np_end_time_step (np_adapt_loop ?N np_tunables 2 [2, 2] [ToyFE 8, ToyFE 8]
           [ToyFE 17, ToyFE 17] [ToyFE 17, ToyFE 17] 1)"
    using C10_derefinement_before_adaptivity [OF h1 n2, where H = ?N and spaces = "[8, 8]"
        and slns = "[ToyFE 8, ToyFE 8]" and ref_slns = "[ToyFE 17, ToyFE 17]"
        and prev_time = "[ToyFE 17, ToyFE 17]", THEN conjunct1]
    unfolding dn .
  then have c: "np_time_step ?N np_tunables 2 [8, 8] [ToyFE 8, ToyFE 8] [ToyFE 17, ToyFE 17]
          [ToyFE 17, ToyFE 17]
       = Some (Inr ([2, 2], [ToyFE 2, ToyFE 2], [ToyFE 5, ToyFE 5], [ToyFE 5, ToyFE 5]))"
    by (simp add: np_toy_loop np_end_time_step_def)
  have "seepage_time_step ?S seepage_tunables 2 8 (ToyFE 8) (ToyFE 17) (ToyFE 17)
       = seepage_end_time_step
           (seepage_adapt_loop ?S seepage_tunables 2 4 (ToyFE 8) (ToyFE 17) (ToyFE 17) 1)"
    using C10_derefinement_before_adaptivity [OF h1 s2, where H = ?S and space = 8
        and sln = "ToyFE 8" and ref_sln = "ToyFE 17" and sln_prev_time = "ToyFE 17",
        THEN conjunct2, THEN conjunct2, THEN conjunct2, THEN mp, OF s3, THEN conjunct2]
    unfolding ds .
  then have e: "seepage_time_step ?S seepage_tunables 2 8 (ToyFE 8) (ToyFE 17) (ToyFE 17)
       = Some (Inr (4, ToyFE 4, ToyFE 9, ToyFE 9))"
    by (simp add: seepage_toy_loop seepage_end_time_step_def)
  from h1 h2 h3 a b n2 c s2 s3 e show ?thesis by (intro conjI)
qed

end
